theory Spec2Isabelle
  imports Main "HOL-Library.Sublist"
begin

section \<open>Python strings\<close>

text \<open>
  A Python \<^verbatim>\<open>str\<close> is a sequence of Unicode code points, so a string is modelled as a
  list of code points (natural numbers).  ASCII literals are written through \<open>ascii\<close>;
  the Chinese tokens of the source are given by their code points.
\<close>

type_synonym ustr = "nat list"

definition ascii :: "string \<Rightarrow> ustr" where
  "ascii s = map of_char s"

definition NL :: nat where
  "NL = 10"

text \<open>The four answer tokens of the prompts: U+9519 (wrong), U+5BF9 (right), U+662F (yes), U+5426 (no).\<close>

definition tok_cuo :: ustr where
  "tok_cuo = [38169]"

definition tok_dui :: ustr where
  "tok_dui = [23545]"

definition tok_shi :: ustr where
  "tok_shi = [26159]"

definition tok_fou :: ustr where
  "tok_fou = [21542]"

text \<open>
  \<^verbatim>\<open>str.isspace\<close> of one code point: the characters that \<^verbatim>\<open>str.strip()\<close> removes.
\<close>

definition is_space :: "nat \<Rightarrow> bool" where
  "is_space c =
     (c \<in> set [9, 10, 11, 12, 13, 28, 29, 30, 31, 32, 133, 160, 5760]
      \<or> (8192 \<le> c \<and> c \<le> 8202)
      \<or> c \<in> set [8232, 8233, 8239, 8287, 12288])"

text \<open>\<^verbatim>\<open>s.strip()\<close>.\<close>

definition strip :: "ustr \<Rightarrow> ustr" where
  "strip s = rev (dropWhile is_space (rev (dropWhile is_space s)))"

text \<open>\<^verbatim>\<open>s.startswith(p)\<close>.\<close>

definition startswith :: "ustr \<Rightarrow> ustr \<Rightarrow> bool" where
  "startswith s p = (take (length p) s = p)"

text \<open>
  \<^verbatim>\<open>s.split(sep)\<close> for a one-character separator: the result is never empty, and
  a trailing separator gives a trailing empty piece.
\<close>

fun split_on :: "nat \<Rightarrow> ustr \<Rightarrow> ustr list" where
  "split_on d [] = [[]]"
| "split_on d (c # cs) =
     (if c = d then [] # split_on d cs
      else (case split_on d cs of
              [] \<Rightarrow> [[c]]
            | l # ls \<Rightarrow> (c # l) # ls))"

text \<open>\<^verbatim>\<open>sep.join(pieces)\<close>.\<close>

fun join :: "ustr \<Rightarrow> ustr list \<Rightarrow> ustr" where
  "join sep [] = []"
| "join sep [x] = x"
| "join sep (x # y # ys) = x @ sep @ join sep (y # ys)"

section \<open>PatchSplitter (\<^verbatim>\<open>gerrit_AI.py\<close>)\<close>

text \<open>
  The loop of \<^verbatim>\<open>_extract_bad_code\<close>: \<open>bad_lines\<close> is the list built so far,
  a line is appended without its first character when it starts with \<^verbatim>\<open>-\<close>
  and not with \<^verbatim>\<open>---\<close>.
\<close>

fun bad_lines_loop :: "ustr list \<Rightarrow> ustr list \<Rightarrow> ustr list" where
  "bad_lines_loop [] bad_lines = bad_lines"
| "bad_lines_loop (line # rest) bad_lines =
     (if startswith line (ascii ''-'') \<and> \<not> startswith line (ascii ''---'')
      then bad_lines_loop rest (bad_lines @ [drop 1 line])
      else bad_lines_loop rest bad_lines)"

definition extract_bad_code :: "ustr \<Rightarrow> ustr" where
  "extract_bad_code patch = join [NL] (bad_lines_loop (split_on NL patch) [])"

text \<open>The loop of \<^verbatim>\<open>_extract_good_code\<close>, with \<^verbatim>\<open>+\<close> and \<^verbatim>\<open>+++\<close>.\<close>

fun good_lines_loop :: "ustr list \<Rightarrow> ustr list \<Rightarrow> ustr list" where
  "good_lines_loop [] good_lines = good_lines"
| "good_lines_loop (line # rest) good_lines =
     (if startswith line (ascii ''+'') \<and> \<not> startswith line (ascii ''+++'')
      then good_lines_loop rest (good_lines @ [drop 1 line])
      else good_lines_loop rest good_lines)"

definition extract_good_code :: "ustr \<Rightarrow> ustr" where
  "extract_good_code patch = join [NL] (good_lines_loop (split_on NL patch) [])"

text \<open>
  The splitter as the specification words it: keep the lines with a single removal
  (addition) marker that are not file-header lines, strip the marker, join by newlines.
\<close>

definition spec_marked :: "ustr \<Rightarrow> ustr \<Rightarrow> ustr \<Rightarrow> bool" where
  "spec_marked marker header line = (startswith line marker \<and> \<not> startswith line header)"

definition spec_before_code :: "ustr \<Rightarrow> ustr" where
  "spec_before_code patch =
     join [NL] (map (drop 1) (filter (spec_marked (ascii ''-'') (ascii ''---'')) (split_on NL patch)))"

definition spec_after_code :: "ustr \<Rightarrow> ustr" where
  "spec_after_code patch =
     join [NL] (map (drop 1) (filter (spec_marked (ascii ''+'') (ascii ''+++'')) (split_on NL patch)))"

section \<open>The oracle boundary\<close>

text \<open>
  Every oracle use in the source has the shape
  \<^verbatim>\<open>response = self.ai_client.chat.completions.create(...)\<close> followed by
  \<^verbatim>\<open>response.choices[0].message.content.strip()\<close>, inside a \<^verbatim>\<open>try\<close>.
  A reply is \<open>Raises\<close> when the call or the access to the content raises,
  \<open>Content None\<close> when the content is \<^verbatim>\<open>None\<close> (so that \<^verbatim>\<open>.strip()\<close> raises
  \<^verbatim>\<open>AttributeError\<close>), and \<open>Content (Some s)\<close> for a text \<open>s\<close>.
\<close>

datatype reply = Raises | Content "ustr option"

datatype exn = OracleError | AttributeError | ValueError | IndexError | KeyError | HTTPError | OSError

definition content_strip :: "reply \<Rightarrow> exn + ustr" where
  "content_strip r =
     (case r of
        Raises \<Rightarrow> Inl OracleError
      | Content None \<Rightarrow> Inl AttributeError
      | Content (Some s) \<Rightarrow> Inr (strip s))"

section \<open>Python's \<^verbatim>\<open>int(str)\<close>\<close>

text \<open>
  \<^verbatim>\<open>int(s)\<close> in base ten: whitespace around the number is skipped, one sign is
  allowed, digits may be separated by single underscores.  Inside \<^verbatim>\<open>int\<close> the
  separators U+001C to U+001F are not whitespace (they are for \<^verbatim>\<open>str.strip\<close>).
  ASCII digits have their value; the decimal value of a code point above 127 comes from
  the runtime's Unicode database, which is the parameter \<open>dec\<close>.  (The limit on the
  number of digits of recent interpreters is not modelled; the replies parsed here are
  bounded by \<^verbatim>\<open>max_tokens=100\<close>.)
\<close>

definition int_space :: "nat \<Rightarrow> bool" where
  "int_space c = (is_space c \<and> c \<notin> set [28, 29, 30, 31])"

definition digit_of :: "(nat \<Rightarrow> nat option) \<Rightarrow> nat \<Rightarrow> nat option" where
  "digit_of dec c =
     (if 48 \<le> c \<and> c \<le> 57 then Some (c - 48)
      else if c < 128 then None
      else dec c)"

fun digits_loop :: "(nat \<Rightarrow> nat option) \<Rightarrow> ustr \<Rightarrow> nat \<Rightarrow> nat option" where
  "digits_loop dec [] acc = Some acc"
| "digits_loop dec (c # cs) acc =
     (if c = 95 then
        (case cs of
           [] \<Rightarrow> None
         | d # _ \<Rightarrow> (if d = 95 then None else digits_loop dec cs acc))
      else
        (case digit_of dec c of
           None \<Rightarrow> None
         | Some v \<Rightarrow> digits_loop dec cs (10 * acc + v)))"

definition parse_digits :: "(nat \<Rightarrow> nat option) \<Rightarrow> ustr \<Rightarrow> nat option" where
  "parse_digits dec s =
     (case s of
        [] \<Rightarrow> None
      | c # _ \<Rightarrow> (if c = 95 then None else digits_loop dec s 0))"

definition py_int :: "(nat \<Rightarrow> nat option) \<Rightarrow> ustr \<Rightarrow> exn + int" where
  "py_int dec s =
     (let t = dropWhile int_space s;
          neg = (take 1 t = ascii ''-'');
          u = (if take 1 t = ascii ''+'' \<or> take 1 t = ascii ''-'' then drop 1 t else t);
          body = rev (dropWhile int_space (rev u))
      in (case parse_digits dec body of
            None \<Rightarrow> Inl ValueError
          | Some n \<Rightarrow> Inr (if neg then - int n else int n)))"

section \<open>ReviewLoop (\<^verbatim>\<open>AI_check.py\<close>)\<close>

text \<open>
  The three requests of \<^verbatim>\<open>AICodeReviewer\<close>, each carrying the values that its prompt
  is formatted from.  The oracle answers a request given the requests made before it
  (the log), so that the same prompt may be answered differently at different times.
\<close>

datatype request =
    FirstReview ustr
  | GenerateFix ustr
  | SecondReview ustr ustr ustr "ustr option"

type_synonym chat_fn = "request list \<Rightarrow> request \<Rightarrow> reply"

text \<open>\<^verbatim>\<open>first_review\<close>: the stripped reply, or the token U+9519 when anything raises.\<close>

definition first_review :: "chat_fn \<Rightarrow> request list \<Rightarrow> ustr \<Rightarrow> ustr \<times> request list" where
  "first_review chat log code =
     (case content_strip (chat log (FirstReview code)) of
        Inl e \<Rightarrow> (tok_cuo, log @ [FirstReview code])
      | Inr result \<Rightarrow> (result, log @ [FirstReview code]))"

text \<open>\<^verbatim>\<open>generate_fixed_code\<close>: the stripped reply, or the original code when anything raises.\<close>

definition generate_fixed_code :: "chat_fn \<Rightarrow> request list \<Rightarrow> ustr \<Rightarrow> ustr \<times> request list" where
  "generate_fixed_code chat log code =
     (case content_strip (chat log (GenerateFix code)) of
        Inl e \<Rightarrow> (code, log @ [GenerateFix code])
      | Inr fixed_code \<Rightarrow> (fixed_code, log @ [GenerateFix code]))"

text \<open>The body of the \<^verbatim>\<open>try\<close> of \<^verbatim>\<open>second_review\<close>, on the reply of the oracle.\<close>

definition second_review_try :: "(nat \<Rightarrow> nat option) \<Rightarrow> reply \<Rightarrow> exn + (int \<times> ustr)" where
  "second_review_try dec r =
     (case content_strip r of
        Inl e \<Rightarrow> Inl e
      | Inr stripped \<Rightarrow>
          (let result = split_on NL stripped in
           (case result of
              [] \<Rightarrow> Inl IndexError
            | line0 # _ \<Rightarrow>
                (case py_int dec line0 of
                   Inl e \<Rightarrow> Inl e
                 | Inr score \<Rightarrow>
                     Inr (score, if length result > 1 then result ! 1 else tok_fou)))))"

definition second_review ::
  "(nat \<Rightarrow> nat option) \<Rightarrow> chat_fn \<Rightarrow> request list \<Rightarrow> ustr \<Rightarrow> ustr \<Rightarrow> ustr \<Rightarrow> ustr option
     \<Rightarrow> (int \<times> ustr) \<times> request list" where
  "second_review dec chat log ai good bad analysis =
     (let req = SecondReview ai good bad analysis in
      (case second_review_try dec (chat log req) of
         Inl e \<Rightarrow> ((0, tok_fou), log @ [req])
       | Inr v \<Rightarrow> (v, log @ [req])))"

text \<open>
  A row of the data frame: the three input columns read by \<^verbatim>\<open>main\<close> (a missing cell,
  for which \<^verbatim>\<open>pd.isna\<close> holds, is \<open>None\<close>) and the four result columns.
\<close>

record row =
  bad_code :: "ustr option"
  good_code :: "ustr option"
  bug_analysis :: "ustr option"
  first_review_col :: ustr
  ai_code :: ustr
  similarity_score :: int
  suitable_for_training :: ustr

text \<open>The result columns as \<^verbatim>\<open>main\<close> initialises them.\<close>

definition init_row :: "ustr option \<Rightarrow> ustr option \<Rightarrow> ustr option \<Rightarrow> row" where
  "init_row b g a =
     \<lparr>bad_code = b, good_code = g, bug_analysis = a, first_review_col = [],
      ai_code = [], similarity_score = 0, suitable_for_training = []\<rparr>"

text \<open>The body of the \<^verbatim>\<open>for\<close> loop of \<^verbatim>\<open>main\<close> on one row.\<close>

definition process_row ::
  "(nat \<Rightarrow> nat option) \<Rightarrow> chat_fn \<Rightarrow> request list \<Rightarrow> row \<Rightarrow> row \<times> request list" where
  "process_row dec chat log r =
     (case bad_code r of
        None \<Rightarrow> (r, log)
      | Some b \<Rightarrow>
          (case good_code r of
             None \<Rightarrow> (r, log)
           | Some g \<Rightarrow>
               (let (first_result, log1) = first_review chat log b;
                    r1 = r\<lparr>first_review_col := first_result\<rparr>
                in if first_result = tok_cuo then
                     (let (fixed, log2) = generate_fixed_code chat log1 b;
                          ((score, is_suitable), log3) =
                             second_review dec chat log2 fixed g b (bug_analysis r)
                      in (r1\<lparr>ai_code := fixed, similarity_score := score,
                              suitable_for_training := is_suitable\<rparr>, log3))
                   else
                     (r1\<lparr>ai_code := b, similarity_score := 100,
                         suitable_for_training := tok_shi\<rparr>, log1))))"

fun main_loop ::
  "(nat \<Rightarrow> nat option) \<Rightarrow> chat_fn \<Rightarrow> request list \<Rightarrow> row list \<Rightarrow> row list \<times> request list" where
  "main_loop dec chat log [] = ([], log)"
| "main_loop dec chat log (r # rs) =
     (let (r', log1) = process_row dec chat log r;
          (rs', log2) = main_loop dec chat log1 rs
      in (r' # rs', log2))"

section \<open>BugClassifier (\<^verbatim>\<open>gerrit_AI.py\<close>)\<close>

text \<open>
  The literal markers searched in the answer: \<^verbatim>\<open>[U+5224 U+65AD]\<close> followed by U+662F
  (judgment: yes), \<^verbatim>\<open>[U+7C7B U+578B]\<close> (type) and \<^verbatim>\<open>[U+63CF U+8FF0]\<close> (description).
\<close>

definition tag_judge_yes :: ustr where
  "tag_judge_yes = ascii ''['' @ [21028, 26029] @ ascii '']'' @ tok_shi"

definition tag_type :: ustr where
  "tag_type = ascii ''['' @ [31867, 22411] @ ascii '']''"

definition tag_desc :: ustr where
  "tag_desc = ascii ''['' @ [25551, 36848] @ ascii '']''"

text \<open>The text after the leftmost occurrence of a literal pattern, if there is one.\<close>

fun find_after :: "ustr \<Rightarrow> ustr \<Rightarrow> ustr option" where
  "find_after pat [] = (if pat = [] then Some [] else None)"
| "find_after pat (c # cs) =
     (if startswith (c # cs) pat then Some (drop (length pat) (c # cs))
      else find_after pat cs)"

text \<open>\<^verbatim>\<open>pat in s\<close>.\<close>

definition contains :: "ustr \<Rightarrow> ustr \<Rightarrow> bool" where
  "contains pat s = (find_after pat s \<noteq> None)"

text \<open>
  \<^verbatim>\<open>re.search(marker + '(.*)', s)\<close> for a literal marker: \<open>None\<close> without a match,
  else group 1, the rest of the line after the leftmost marker (the dot matches
  everything but the newline).
\<close>

definition re_search_rest :: "ustr \<Rightarrow> ustr \<Rightarrow> ustr option" where
  "re_search_rest marker s =
     (case find_after marker s of
        None \<Rightarrow> None
      | Some rest \<Rightarrow> Some (takeWhile (\<lambda>c. c \<noteq> NL) rest))"

text \<open>
  A request of \<^verbatim>\<open>_analyze_bug_with_ai\<close> is the pair of the diff and the change subject
  that its prompt is formatted from; the oracle answers given the earlier requests.
\<close>

type_synonym ai_request = "ustr \<times> ustr"

type_synonym ai_chat = "ai_request list \<Rightarrow> ai_request \<Rightarrow> reply"

text \<open>The body of the \<^verbatim>\<open>try\<close> of \<^verbatim>\<open>_analyze_bug_with_ai\<close>, on the reply of the oracle.\<close>

definition analyze_try :: "reply \<Rightarrow> exn + (bool \<times> ustr \<times> ustr)" where
  "analyze_try r =
     (case content_strip r of
        Inl e \<Rightarrow> Inl e
      | Inr answer \<Rightarrow>
          (let is_bug = contains tag_judge_yes answer;
               bug_type = (case re_search_rest tag_type answer of
                             None \<Rightarrow> []
                           | Some m \<Rightarrow> strip m);
               bug_desc = (case re_search_rest tag_desc answer of
                             None \<Rightarrow> []
                           | Some m \<Rightarrow> strip m)
           in Inr (is_bug, bug_type, bug_desc)))"

definition analyze_bug_with_ai ::
  "ai_chat \<Rightarrow> ai_request list \<Rightarrow> ustr \<Rightarrow> ustr \<Rightarrow> (bool \<times> ustr \<times> ustr) \<times> ai_request list" where
  "analyze_bug_with_ai chat log diff_content change_subject =
     (if diff_content = [] then ((False, [], []), log)
      else
        (case analyze_try (chat log (diff_content, change_subject)) of
           Inl e \<Rightarrow> ((False, [], []), log @ [(diff_content, change_subject)])
         | Inr v \<Rightarrow> (v, log @ [(diff_content, change_subject)])))"

section \<open>CorpusBuilder (\<^verbatim>\<open>gerrit_AI.py\<close>)\<close>

text \<open>
  A change as Gerrit returns it (\<^verbatim>\<open>id\<close>, \<^verbatim>\<open>subject\<close>, \<^verbatim>\<open>_number\<close>), and everything
  outside the program that \<^verbatim>\<open>download_bugfix_patches\<close> depends on:
  \<^item> \<open>w_makedirs\<close>: whether \<^verbatim>\<open>os.makedirs\<close> succeeds;
  \<^item> \<open>w_changes\<close>: the result of \<^verbatim>\<open>get_project_changes\<close> (a list, or a raise);
  \<^item> \<open>w_files\<close>: the keys of the file map of a change, or a raise;
  \<^item> \<open>w_patch\<close>: the decoded patch text of a file of a change, or a raise;
  \<^item> \<open>w_chat\<close>: the oracle;
  \<^item> \<open>w_kw\<close>: \<^verbatim>\<open>keyword_pattern.search\<close> on a subject;
  \<^item> \<open>w_write\<close>: whether opening and writing the named file succeeds, given the
    attempts made so far.
\<close>

record change =
  ch_id :: ustr
  ch_subject :: ustr
  ch_number :: int

record world =
  w_makedirs :: bool
  w_changes :: "exn + change list"
  w_files :: "ustr \<Rightarrow> exn + ustr list"
  w_patch :: "ustr \<Rightarrow> ustr \<Rightarrow> exn + ustr"
  w_chat :: ai_chat
  w_kw :: "ustr \<Rightarrow> bool"
  w_write :: "(ustr \<times> bool) list \<Rightarrow> ustr \<Rightarrow> bool"

definition get_change_files :: "world \<Rightarrow> ustr \<Rightarrow> exn + ustr list" where
  "get_change_files W change_id =
     (case w_files W change_id of
        Inl e \<Rightarrow> Inl e
      | Inr keys \<Rightarrow> Inr (filter (\<lambda>file_path. file_path \<noteq> ascii ''/COMMIT_MSG'') keys))"

text \<open>\<^verbatim>\<open>s.replace('\r\n', '\n')\<close> and \<^verbatim>\<open>s.replace('\r', '\n')\<close>.\<close>

fun replace_crlf :: "ustr \<Rightarrow> ustr" where
  "replace_crlf [] = []"
| "replace_crlf [c] = [c]"
| "replace_crlf (c # d # cs) =
     (if c = 13 \<and> d = 10 then 10 # replace_crlf cs else c # replace_crlf (d # cs))"

definition replace_cr :: "ustr \<Rightarrow> ustr" where
  "replace_cr s = map (\<lambda>c. if c = 13 then 10 else c) s"

definition get_well_formatted_patch :: "world \<Rightarrow> ustr \<Rightarrow> ustr \<Rightarrow> exn + ustr" where
  "get_well_formatted_patch W change_id file_path =
     (case w_patch W change_id file_path of
        Inl e \<Rightarrow> Inl e
      | Inr decoded \<Rightarrow>
          Inr (replace_cr (replace_crlf decoded)
               @ (if decoded \<noteq> [] \<and> last decoded = NL then [] else [NL])))"

text \<open>
  The dictionaries built by \<^verbatim>\<open>filter_bug_fixes\<close>: one per accepted file and one per
  change with an accepted file.  (The fields \<^verbatim>\<open>matched_keywords\<close> and \<^verbatim>\<open>url\<close>, which
  are only printed, and the progress messages of \<^verbatim>\<open>filter_bug_fixes\<close> are left out.)
\<close>

record bug_file =
  bf_path :: ustr
  bf_patch :: ustr
  bf_bug_type :: ustr
  bf_bug_desc :: ustr
  bf_bad_code :: ustr
  bf_good_code :: ustr

record bugfix_change =
  bc_change_id :: ustr
  bc_number :: int
  bc_subject :: ustr
  bc_files :: "bug_file list"

text \<open>
  The inner loop over the files of one change.  A raise of
  \<^verbatim>\<open>get_well_formatted_patch\<close> is caught and the file skipped; a file with an empty
  half is skipped before the oracle is asked.
\<close>

fun files_loop ::
  "world \<Rightarrow> change \<Rightarrow> ustr list \<Rightarrow> bug_file list \<Rightarrow> ai_request list
     \<Rightarrow> bug_file list \<times> ai_request list" where
  "files_loop W ch [] valuable_files log = (valuable_files, log)"
| "files_loop W ch (file_path # rest) valuable_files log =
     (case get_well_formatted_patch W (ch_id ch) file_path of
        Inl e \<Rightarrow> files_loop W ch rest valuable_files log
      | Inr patch \<Rightarrow>
          (let bad = extract_bad_code patch;
               good = extract_good_code patch
           in if strip bad = [] \<or> strip good = [] then files_loop W ch rest valuable_files log
              else
                (let ((is_bug, bug_type, bug_desc), log1) =
                        analyze_bug_with_ai (w_chat W) log patch (ch_subject ch)
                 in if is_bug then
                      files_loop W ch rest
                        (valuable_files @
                           [\<lparr>bf_path = file_path, bf_patch = patch, bf_bug_type = bug_type,
                             bf_bug_desc = bug_desc, bf_bad_code = bad, bf_good_code = good\<rparr>])
                        log1
                    else files_loop W ch rest valuable_files log1)))"

text \<open>
  The outer loop over the keyword-matched changes.  \<^verbatim>\<open>get_change_files\<close> is called
  outside any \<^verbatim>\<open>try\<close>: its raise ends \<^verbatim>\<open>filter_bug_fixes\<close>.
\<close>

fun changes_loop ::
  "world \<Rightarrow> change list \<Rightarrow> bugfix_change list \<Rightarrow> ai_request list
     \<Rightarrow> (exn + bugfix_change list) \<times> ai_request list" where
  "changes_loop W [] result log = (Inr result, log)"
| "changes_loop W (ch # rest) result log =
     (case get_change_files W (ch_id ch) of
        Inl e \<Rightarrow> (Inl e, log)
      | Inr files \<Rightarrow>
          (let (valuable_files, log1) = files_loop W ch files [] log
           in if valuable_files \<noteq> [] then
                changes_loop W rest
                  (result @
                     [\<lparr>bc_change_id = ch_id ch, bc_number = ch_number ch,
                       bc_subject = ch_subject ch, bc_files = valuable_files\<rparr>])
                  log1
              else changes_loop W rest result log1))"

definition filter_bug_fixes ::
  "world \<Rightarrow> change list \<Rightarrow> ai_request list \<Rightarrow> (exn + bugfix_change list) \<times> ai_request list" where
  "filter_bug_fixes W changes log =
     changes_loop W (filter (\<lambda>ch. w_kw W (ch_subject ch)) changes) [] log"

text \<open>\<^verbatim>\<open>str(n)\<close> for an integer, and the patch file name of a file of a change.\<close>

fun str_nat :: "nat \<Rightarrow> ustr" where
  "str_nat n = (if n < 10 then [48 + n] else str_nat (n div 10) @ [48 + n mod 10])"

declare str_nat.simps [simp del]

definition str_int :: "int \<Rightarrow> ustr" where
  "str_int i = (if i < 0 then ascii ''-'' @ str_nat (nat (- i)) else str_nat (nat i))"

definition patch_name :: "int \<Rightarrow> ustr \<Rightarrow> ustr" where
  "patch_name number path =
     str_int number @ ascii ''_'' @ map (\<lambda>ch. if ch = 47 then 95 else ch) path @ ascii ''.patch''"

definition patch_filename :: "bugfix_change \<Rightarrow> bug_file \<Rightarrow> ustr" where
  "patch_filename c f = patch_name (bc_number c) (bf_path f)"

text \<open>
  A row of \<^verbatim>\<open>csv_data\<close>, the messages printed while saving, and the state of the
  saving loops: the rows so far, the messages so far, and the write attempts so far
  (file name and whether the write succeeded).
\<close>

record csv_row =
  csv_bad_code :: ustr
  csv_good_code :: ustr
  csv_bug_type :: ustr
  csv_bug_analysis :: ustr
  csv_file_path :: ustr
  csv_change_id :: ustr
  csv_change_number :: int
  csv_change_subject :: ustr

datatype msg =
    MsgSaved ustr
  | MsgSaveFailed ustr int int
  | MsgGiveUp ustr

record dl_state =
  csv_data :: "csv_row list"
  out :: "msg list"
  writes :: "(ustr \<times> bool) list"

definition row_of :: "bugfix_change \<Rightarrow> bug_file \<Rightarrow> csv_row" where
  "row_of c f =
     \<lparr>csv_bad_code = bf_bad_code f, csv_good_code = bf_good_code f,
      csv_bug_type = bf_bug_type f, csv_bug_analysis = bf_bug_desc f,
      csv_file_path = bf_path f, csv_change_id = bc_change_id c,
      csv_change_number = bc_number c, csv_change_subject = bc_subject c\<rparr>"

text \<open>
  The \<^verbatim>\<open>while retry_count < max_retries\<close> loop for one file: a successful write
  prints, appends the row and breaks; a failed one counts, prints the count, and
  prints the final failure when the count reaches \<^verbatim>\<open>max_retries\<close>.
\<close>

function write_retry ::
  "world \<Rightarrow> int \<Rightarrow> ustr \<Rightarrow> csv_row \<Rightarrow> int \<Rightarrow> dl_state \<Rightarrow> dl_state" where
  "write_retry W max_retries filename r retry_count st =
     (if retry_count < max_retries then
        (if w_write W (writes st) filename then
           st\<lparr>csv_data := csv_data st @ [r],
              out := out st @ [MsgSaved filename],
              writes := writes st @ [(filename, True)]\<rparr>
         else
           write_retry W max_retries filename r (retry_count + 1)
             (st\<lparr>out := out st
                    @ [MsgSaveFailed filename (retry_count + 1) max_retries]
                    @ (if retry_count + 1 = max_retries then [MsgGiveUp filename] else []),
                 writes := writes st @ [(filename, False)]\<rparr>))
      else st)"
  by pat_completeness simp_all
termination
  by (relation "measure (\<lambda>(W, max_retries, filename, r, retry_count, st).
                           nat (max_retries - retry_count))")
     simp_all

declare write_retry.simps [simp del]

text \<open>The loops over the files of a change and over the changes.\<close>

fun save_files :: "world \<Rightarrow> int \<Rightarrow> bugfix_change \<Rightarrow> bug_file list \<Rightarrow> dl_state \<Rightarrow> dl_state" where
  "save_files W max_retries c [] st = st"
| "save_files W max_retries c (f # fs) st =
     save_files W max_retries c fs
       (write_retry W max_retries (patch_filename c f) (row_of c f) 0 st)"

fun save_changes :: "world \<Rightarrow> int \<Rightarrow> bugfix_change list \<Rightarrow> dl_state \<Rightarrow> dl_state" where
  "save_changes W max_retries [] st = st"
| "save_changes W max_retries (c # cs) st =
     save_changes W max_retries cs (save_files W max_retries c (bc_files c) st)"

text \<open>The dataset file: the header row of \<^verbatim>\<open>fieldnames\<close> and one row of cells per record.\<close>

definition fieldnames :: "ustr list" where
  "fieldnames =
     [ascii ''bad_code'', ascii ''good_code'', ascii ''bug_type'', ascii ''bug_analysis'',
      ascii ''file_path'', ascii ''change_id'', ascii ''change_number'', ascii ''change_subject'']"

definition csv_cells :: "csv_row \<Rightarrow> ustr list" where
  "csv_cells r =
     [csv_bad_code r, csv_good_code r, csv_bug_type r, csv_bug_analysis r,
      csv_file_path r, csv_change_id r, str_int (csv_change_number r), csv_change_subject r]"

definition csv_name :: ustr where
  "csv_name = ascii ''bugfix_analysis.csv''"

text \<open>
  \<^verbatim>\<open>download_bugfix_patches\<close>: the final state of the saving loops and the dataset
  file written (\<open>None\<close> when none is), or the exception that ends the run.
\<close>

definition download_bugfix_patches ::
  "world \<Rightarrow> int \<Rightarrow> exn + (dl_state \<times> ustr list list option)" where
  "download_bugfix_patches W max_retries =
     (if \<not> w_makedirs W then Inl OSError
      else
        (case w_changes W of
           Inl e \<Rightarrow> Inl e
         | Inr changes \<Rightarrow>
             (case fst (filter_bug_fixes W changes []) of
                Inl e \<Rightarrow> Inl e
              | Inr bugfix_changes \<Rightarrow>
                  (let st = save_changes W max_retries bugfix_changes
                              \<lparr>csv_data = [], out = [], writes = []\<rparr>
                   in if csv_data st \<noteq> [] then
                        (if w_write W (writes st) csv_name
                         then Inr (st, Some (fieldnames # map csv_cells (csv_data st)))
                         else Inl OSError)
                      else Inr (st, None)))))"

text \<open>
  For stating the properties: the rows of all accepted records, in order; the messages
  of \<open>k\<close> consecutive failed attempts after \<open>retry_count\<close> earlier ones; and the
  condition that both halves of a record are non-empty after stripping.
\<close>

definition accepted_rows :: "bugfix_change list \<Rightarrow> csv_row list" where
  "accepted_rows cs = concat (map (\<lambda>c. map (row_of c) (bc_files c)) cs)"

definition failure_msgs :: "ustr \<Rightarrow> int \<Rightarrow> int \<Rightarrow> nat \<Rightarrow> msg list" where
  "failure_msgs filename max_retries retry_count k =
     map (\<lambda>i. MsgSaveFailed filename (retry_count + 1 + int i) max_retries) [0..<k]"

definition both_halves :: "ustr \<Rightarrow> ustr \<Rightarrow> bool" where
  "both_halves bad good = (strip bad \<noteq> [] \<and> strip good \<noteq> [])"

text \<open>
  A concrete run: one change with one file whose patch replaces a line, an oracle that
  accepts it, and a disk on which every write fails.
\<close>

definition ex_change :: change where
  "ex_change = \<lparr>ch_id = ascii ''I1'', ch_subject = ascii ''Fix bug'', ch_number = 42\<rparr>"

definition ex_patch :: ustr where
  "ex_patch = ascii ''-int x = 1;\<newline>+int x = 2;\<newline>''"

definition ex_answer :: ustr where
  "ex_answer = tag_judge_yes @ [NL] @ tag_type @ ascii ''off by one'' @ [NL] @ tag_desc
                 @ ascii ''fixes x''"

definition ex_world :: world where
  "ex_world =
     \<lparr>w_makedirs = True,
      w_changes = Inr [ex_change],
      w_files = (\<lambda>change_id. Inr [ascii ''/COMMIT_MSG'', ascii ''src/a.c'']),
      w_patch = (\<lambda>change_id file_path. Inr ex_patch),
      w_chat = (\<lambda>log req. Content (Some ex_answer)),
      w_kw = (\<lambda>subject. True),
      w_write = (\<lambda>attempts filename. False)\<rparr>"

definition ex_file :: bug_file where
  "ex_file =
     \<lparr>bf_path = ascii ''src/a.c'', bf_patch = ex_patch, bf_bug_type = ascii ''off by one'',
      bf_bug_desc = ascii ''fixes x'', bf_bad_code = ascii ''int x = 1;'',
      bf_good_code = ascii ''int x = 2;''\<rparr>"

definition ex_bugfix :: bugfix_change where
  "ex_bugfix =
     \<lparr>bc_change_id = ascii ''I1'', bc_number = 42, bc_subject = ascii ''Fix bug'',
      bc_files = [ex_file]\<rparr>"

definition ex_final :: dl_state where
  "ex_final =
     \<lparr>csv_data = [],
      out = [MsgSaveFailed (ascii ''42_src_a.c.patch'') 1 3,
             MsgSaveFailed (ascii ''42_src_a.c.patch'') 2 3,
             MsgSaveFailed (ascii ''42_src_a.c.patch'') 3 3,
             MsgGiveUp (ascii ''42_src_a.c.patch'')],
      writes = [(ascii ''42_src_a.c.patch'', False), (ascii ''42_src_a.c.patch'', False),
                (ascii ''42_src_a.c.patch'', False)]\<rparr>"

section \<open>Manifest parser (\<^verbatim>\<open>utils/menifest_paeser.py\<close>)\<close>

text \<open>
  An element is its attribute list; \<^verbatim>\<open>elem.get(name)\<close> is \<open>None\<close> for an absent
  attribute.  The parsed document is given by the elements that \<^verbatim>\<open>root.iter\<close> finds
  for the tags \<^verbatim>\<open>project\<close>, \<^verbatim>\<open>default\<close> and \<^verbatim>\<open>remote\<close>, in document order.
\<close>

type_synonym element = "(ustr \<times> ustr) list"

record manifest =
  m_projects :: "element list"
  m_default :: "element list"
  m_remotes :: "element list"

definition attr :: "element \<Rightarrow> ustr \<Rightarrow> ustr option" where
  "attr e name = map_of e name"

text \<open>Formatting a value that may be \<^verbatim>\<open>None\<close> inside an f-string.\<close>

definition py_str :: "ustr option \<Rightarrow> ustr" where
  "py_str v = (case v of None \<Rightarrow> ascii ''None'' | Some s \<Rightarrow> s)"

text \<open>The dictionary \<^verbatim>\<open>remotes\<close>, from the name attribute to the fetch attribute.\<close>

fun remotes_loop ::
  "element list \<Rightarrow> (ustr option \<rightharpoonup> ustr option) \<Rightarrow> (ustr option \<rightharpoonup> ustr option)" where
  "remotes_loop [] remotes = remotes"
| "remotes_loop (rObj # rest) remotes =
     remotes_loop rest (remotes(attr rObj (ascii ''name'') \<mapsto> attr rObj (ascii ''fetch'')))"

record descriptor =
  d_field :: ustr
  d_trinityProjectId :: "ustr option"
  d_branch :: "ustr option"
  d_target :: ustr

text \<open>The body of the loop over the projects, for one project element.\<close>

definition project_descriptor ::
  "ustr option \<Rightarrow> (ustr option \<rightharpoonup> ustr option) \<Rightarrow> ustr option \<Rightarrow> ustr option \<Rightarrow> element
     \<Rightarrow> exn + descriptor" where
  "project_descriptor projectId remotes default_name default_revision pObj =
     (let rev_attr = attr pObj (ascii ''revision'');
          branch = (if rev_attr \<noteq> None then rev_attr else default_revision);
          key = (case attr pObj (ascii ''remote'') of
                   None \<Rightarrow> default_name
                 | Some r \<Rightarrow> Some r)
      in (case remotes key of
            None \<Rightarrow> Inl KeyError
          | Some fetch \<Rightarrow>
              (let n = (case attr pObj (ascii ''name'') of None \<Rightarrow> [] | Some v \<Rightarrow> v)
               in Inr \<lparr>d_field = ascii ''1'', d_trinityProjectId = projectId, d_branch = branch,
                       d_target = py_str fetch @ ascii ''/'' @ n @ ascii '' -b '' @ py_str rev_attr\<rparr>)))"

fun projects_loop ::
  "ustr option \<Rightarrow> (ustr option \<rightharpoonup> ustr option) \<Rightarrow> ustr option \<Rightarrow> ustr option \<Rightarrow> element list
     \<Rightarrow> descriptor list \<Rightarrow> exn + descriptor list" where
  "projects_loop projectId remotes dn dr [] projects = Inr projects"
| "projects_loop projectId remotes dn dr (pObj # rest) projects =
     (case project_descriptor projectId remotes dn dr pObj of
        Inl e \<Rightarrow> Inl e
      | Inr temp \<Rightarrow> projects_loop projectId remotes dn dr rest (projects @ [temp]))"

definition run :: "ustr option \<Rightarrow> manifest \<Rightarrow> exn + descriptor list" where
  "run projectId m =
     (let remotes = remotes_loop (m_remotes m) Map.empty
      in (case m_default m of
            [] \<Rightarrow> Inl IndexError
          | d # _ \<Rightarrow>
              projects_loop projectId remotes (attr d (ascii ''remote''))
                (attr d (ascii ''revision'')) (m_projects m) []))"

text \<open>
  A manifest with one remote, a default naming that remote and the revision
  \<^verbatim>\<open>main\<close>, and one project that has only a name.
\<close>

definition ex_manifest :: manifest where
  "ex_manifest =
     \<lparr>m_projects = [[(ascii ''name'', ascii ''p'')]],
      m_default = [[(ascii ''remote'', ascii ''origin''), (ascii ''revision'', ascii ''main'')]],
      m_remotes = [[(ascii ''name'', ascii ''origin''), (ascii ''fetch'', ascii ''https://h'')]]\<rparr>"

section \<open>Properties of PatchSplitter\<close>

lemma bad_lines_loop_filter:
  "bad_lines_loop ls acc =
     acc @ map (drop 1) (filter (spec_marked (ascii ''-'') (ascii ''---'')) ls)"
  by (induction ls arbitrary: acc) (simp_all add: spec_marked_def)

lemma good_lines_loop_filter:
  "good_lines_loop ls acc =
     acc @ map (drop 1) (filter (spec_marked (ascii ''+'') (ascii ''+++'')) ls)"
  by (induction ls arbitrary: acc) (simp_all add: spec_marked_def)

text \<open>
  Claim C2.  For every patch text the before-code computed by \<^verbatim>\<open>_extract_bad_code\<close>
  is the newline-join of the marker-stripped lines that start with \<^verbatim>\<open>-\<close> but not
  \<^verbatim>\<open>---\<close>, the after-code of \<^verbatim>\<open>_extract_good_code\<close> is the same for \<^verbatim>\<open>+\<close> and
  \<^verbatim>\<open>+++\<close>, every other line is ignored, and the diff
  \<^verbatim>\<open>"-int x = 1;\n+int x = 2;\n"\<close> splits to \<^verbatim>\<open>"int x = 1;"\<close> and \<^verbatim>\<open>"int x = 2;"\<close>.
\<close>

theorem patch_splitter_refines_spec:
  "extract_bad_code patch = spec_before_code patch
   \<and> extract_good_code patch = spec_after_code patch
   \<and> extract_bad_code (ascii ''-int x = 1;\<newline>+int x = 2;\<newline>'') = ascii ''int x = 1;''
   \<and> extract_good_code (ascii ''-int x = 1;\<newline>+int x = 2;\<newline>'') = ascii ''int x = 2;''"
proof -
  have b: "extract_bad_code patch = spec_before_code patch"
    by (simp add: extract_bad_code_def spec_before_code_def bad_lines_loop_filter)
  have g: "extract_good_code patch = spec_after_code patch"
    by (simp add: extract_good_code_def spec_after_code_def good_lines_loop_filter)
  have eb: "extract_bad_code (ascii ''-int x = 1;\<newline>+int x = 2;\<newline>'') = ascii ''int x = 1;''"
    by (simp add: extract_bad_code_def ascii_def NL_def startswith_def)
  have eg: "extract_good_code (ascii ''-int x = 1;\<newline>+int x = 2;\<newline>'') = ascii ''int x = 2;''"
    by (simp add: extract_good_code_def ascii_def NL_def startswith_def)
  from b g eb eg show ?thesis by simp
qed

section \<open>Properties of ReviewLoop\<close>

lemma split_on_no_sep: "d \<notin> set l \<Longrightarrow> split_on d l = [l]"
  by (induction l) auto

lemma split_on_first_line:
  "d \<notin> set l \<Longrightarrow> split_on d (l @ d # rest) = l # split_on d rest"
  by (induction l) auto

lemma split_on_not_Nil: "split_on d s \<noteq> []"
  by (induction s) (auto split: list.splits)

lemma split_on_hd: "hd (split_on d s) = takeWhile (\<lambda>c. c \<noteq> d) s"
  by (induction s) (auto simp: split_on_not_Nil split: list.splits)

lemma process_row_fix:
  assumes "bad_code r = Some b" "good_code r = Some g"
      and "fst (first_review chat log b) = tok_cuo"
  shows "snd (process_row dec chat log r) =
           log @ [FirstReview b, GenerateFix b,
                  SecondReview (fst (generate_fixed_code chat (log @ [FirstReview b]) b)) g b (bug_analysis r)]"
  using assms
  by (auto simp: process_row_def first_review_def generate_fixed_code_def second_review_def Let_def
           split: sum.splits prod.splits)

lemma process_row_clean:
  assumes "bad_code r = Some b" "good_code r = Some g"
      and "fst (first_review chat log b) \<noteq> tok_cuo"
  shows "process_row dec chat log r =
           (r\<lparr>first_review_col := fst (first_review chat log b), ai_code := b,
              similarity_score := 100, suitable_for_training := tok_shi\<rparr>,
            log @ [FirstReview b])"
  using assms
  by (auto simp: process_row_def first_review_def Let_def split: sum.splits prod.splits)

text \<open>
  Claim C3.  When the first-pass oracle call fails (anything in the \<^verbatim>\<open>try\<close> of
  \<^verbatim>\<open>first_review\<close> raises), \<^verbatim>\<open>first_review\<close> returns the token U+9519 and the row
  goes through fix generation and the second pass, never through the clean branch; and
  the loop body makes the fix-generation request exactly when the first-pass result is
  that token (otherwise the first-pass request is the only one made for the row).
\<close>

theorem first_pass_failure_routes_to_fix:
  assumes "bad_code r = Some b" and "good_code r = Some g"
  shows "(content_strip (chat log (FirstReview b)) = Inl e \<longrightarrow>
            fst (first_review chat log b) = tok_cuo
            \<and> snd (process_row dec chat log r) =
                log @ [FirstReview b, GenerateFix b,
                       SecondReview (fst (generate_fixed_code chat (log @ [FirstReview b]) b)) g b
                         (bug_analysis r)])
       \<and> ((GenerateFix b \<in> set (drop (length log) (snd (process_row dec chat log r))))
            = (fst (first_review chat log b) = tok_cuo))
       \<and> ((snd (process_row dec chat log r) = log @ [FirstReview b])
            = (fst (first_review chat log b) \<noteq> tok_cuo))"
proof -
  have failing: "fst (first_review chat log b) = tok_cuo"
    if "content_strip (chat log (FirstReview b)) = Inl e"
    using that by (simp add: first_review_def)
  have fixing: "snd (process_row dec chat log r) =
      log @ [FirstReview b, GenerateFix b,
             SecondReview (fst (generate_fixed_code chat (log @ [FirstReview b]) b)) g b (bug_analysis r)]"
    if "fst (first_review chat log b) = tok_cuo"
    using process_row_fix [OF assms that] .
  have cleaning: "snd (process_row dec chat log r) = log @ [FirstReview b]"
    if "fst (first_review chat log b) \<noteq> tok_cuo"
    using process_row_clean [OF assms that] by simp
  show ?thesis
  proof (cases "fst (first_review chat log b) = tok_cuo")
    case True
    with fixing failing show ?thesis by simp
  next
    case False
    with cleaning failing show ?thesis by auto
  qed
qed

theorem first_pass_failure_routes_to_fix_witness:
  "bad_code (init_row (Some (ascii ''x=1'')) (Some (ascii ''x=2'')) None) = Some (ascii ''x=1'')
   \<and> good_code (init_row (Some (ascii ''x=1'')) (Some (ascii ''x=2'')) None) = Some (ascii ''x=2'')
   \<and> content_strip ((\<lambda>_ _. Raises) [] (FirstReview (ascii ''x=1''))) = Inl OracleError
   \<and> fst (first_review (\<lambda>_ _. Raises) [] (ascii ''x=1'')) = tok_cuo
   \<and> snd (process_row (\<lambda>_. None) (\<lambda>_ _. Raises) []
            (init_row (Some (ascii ''x=1'')) (Some (ascii ''x=2'')) None))
       = [FirstReview (ascii ''x=1''), GenerateFix (ascii ''x=1''),
          SecondReview (ascii ''x=1'') (ascii ''x=2'') (ascii ''x=1'') None]"
  using first_pass_failure_routes_to_fix
    [of "init_row (Some (ascii ''x=1'')) (Some (ascii ''x=2'')) None" "ascii ''x=1''" "ascii ''x=2''"
        "\<lambda>_ _. Raises" "[]" OracleError "\<lambda>_. None"]
  by (simp add: init_row_def content_strip_def generate_fixed_code_def)


text \<open>
  Claim C4.  For every row with both codes present on which the first pass does not answer
  "erroneous" (its result is not the token U+9519, in particular when it is U+5BF9),
  \<^verbatim>\<open>ai_code\<close> is the row's \<^verbatim>\<open>bad_code\<close>, \<^verbatim>\<open>similarity_score\<close> is exactly 100,
  \<^verbatim>\<open>suitable_for_training\<close> is U+662F, and the only oracle request made for the row is
  the first-pass one: no fix-generation and no second-pass request.
\<close>

theorem clean_branch_row:
  assumes "bad_code r = Some b" and "good_code r = Some g"
      and "fst (first_review chat log b) \<noteq> tok_cuo"
  shows "ai_code (fst (process_row dec chat log r)) = b
       \<and> similarity_score (fst (process_row dec chat log r)) = 100
       \<and> suitable_for_training (fst (process_row dec chat log r)) = tok_shi
       \<and> snd (process_row dec chat log r) = log @ [FirstReview b]"
  using process_row_clean [OF assms, of dec] by simp

theorem clean_branch_row_witness:
  "bad_code (init_row (Some (ascii ''x=1'')) (Some (ascii ''x=2'')) None) = Some (ascii ''x=1'')
   \<and> good_code (init_row (Some (ascii ''x=1'')) (Some (ascii ''x=2'')) None) = Some (ascii ''x=2'')
   \<and> fst (first_review (\<lambda>_ _. Content (Some tok_dui)) [] (ascii ''x=1'')) \<noteq> tok_cuo
   \<and> ai_code (fst (process_row (\<lambda>_. None) (\<lambda>_ _. Content (Some tok_dui)) []
        (init_row (Some (ascii ''x=1'')) (Some (ascii ''x=2'')) None))) = ascii ''x=1''
   \<and> similarity_score (fst (process_row (\<lambda>_. None) (\<lambda>_ _. Content (Some tok_dui)) []
        (init_row (Some (ascii ''x=1'')) (Some (ascii ''x=2'')) None))) = 100
   \<and> suitable_for_training (fst (process_row (\<lambda>_. None) (\<lambda>_ _. Content (Some tok_dui)) []
        (init_row (Some (ascii ''x=1'')) (Some (ascii ''x=2'')) None))) = tok_shi
   \<and> snd (process_row (\<lambda>_. None) (\<lambda>_ _. Content (Some tok_dui)) []
        (init_row (Some (ascii ''x=1'')) (Some (ascii ''x=2'')) None)) = [FirstReview (ascii ''x=1'')]"
proof -
  have t: "fst (first_review (\<lambda>_ _. Content (Some tok_dui)) [] (ascii ''x=1'')) \<noteq> tok_cuo"
    by (simp add: first_review_def content_strip_def strip_def is_space_def tok_dui_def tok_cuo_def)
  show ?thesis
    using t clean_branch_row
      [of "init_row (Some (ascii ''x=1'')) (Some (ascii ''x=2'')) None" "ascii ''x=1''" "ascii ''x=2''"
          "\<lambda>_ _. Content (Some tok_dui)" "[]" "\<lambda>_. None"]
    by (simp add: init_row_def)
qed

lemma first_review_content:
  "chat log (FirstReview b) = Content (Some s) \<Longrightarrow> fst (first_review chat log b) = strip s"
  by (simp add: first_review_def content_strip_def)

text \<open>
  Claim C10.  For a row with both codes present and a first-pass reply text \<open>s\<close>, the loop
  body makes the fix-generation (and second-pass) request if and only if \<open>s\<close> stripped of
  whitespace is exactly the token U+9519; with any other reply text the row gets the
  original code, score 100 and suitability U+662F after the first-pass request alone.
  Replies outside the two-token vocabulary (U+5BF9 followed by an ideographic full stop, an
  English sentence, the empty string) are not the token; the token surrounded by
  whitespace is.
\<close>

theorem first_pass_token_routing:
  assumes "bad_code r = Some b" and "good_code r = Some g"
      and "chat log (FirstReview b) = Content (Some s)"
  shows "((GenerateFix b \<in> set (drop (length log) (snd (process_row dec chat log r))))
            = (strip s = tok_cuo))
       \<and> (strip s = tok_cuo \<longrightarrow>
            snd (process_row dec chat log r) =
              log @ [FirstReview b, GenerateFix b,
                     SecondReview (fst (generate_fixed_code chat (log @ [FirstReview b]) b)) g b
                       (bug_analysis r)])
       \<and> (strip s \<noteq> tok_cuo \<longrightarrow>
            process_row dec chat log r =
              (r\<lparr>first_review_col := strip s, ai_code := b, similarity_score := 100,
                 suitable_for_training := tok_shi\<rparr>, log @ [FirstReview b]))
       \<and> strip (tok_dui @ [12290]) \<noteq> tok_cuo
       \<and> strip (ascii ''The code is wrong.'') \<noteq> tok_cuo
       \<and> strip [] \<noteq> tok_cuo
       \<and> strip (ascii '' '' @ tok_cuo @ [NL]) = tok_cuo"
proof -
  have fr: "fst (first_review chat log b) = strip s"
    using assms(3) by (rule first_review_content)
  have ex: "strip (tok_dui @ [12290]) \<noteq> tok_cuo \<and> strip (ascii ''The code is wrong.'') \<noteq> tok_cuo
       \<and> strip [] \<noteq> tok_cuo \<and> strip (ascii '' '' @ tok_cuo @ [NL]) = tok_cuo"
    by (simp add: strip_def is_space_def tok_dui_def tok_cuo_def ascii_def NL_def)
  show ?thesis
  proof (cases "strip s = tok_cuo")
    case True
    then have "fst (first_review chat log b) = tok_cuo" using fr by simp
    from process_row_fix [OF assms(1,2) this, of dec] True ex show ?thesis by simp
  next
    case False
    then have "fst (first_review chat log b) \<noteq> tok_cuo" using fr by simp
    from process_row_clean [OF assms(1,2) this, of dec] False ex fr show ?thesis by simp
  qed
qed

theorem first_pass_token_routing_witness:
  "process_row (\<lambda>_. None) (\<lambda>_ _. Content (Some (tok_dui @ [12290]))) []
      (init_row (Some (ascii ''x=1'')) (Some (ascii ''x=2'')) None)
     = (\<lparr>bad_code = Some (ascii ''x=1''), good_code = Some (ascii ''x=2''), bug_analysis = None,
         first_review_col = tok_dui @ [12290], ai_code = ascii ''x=1'', similarity_score = 100,
         suitable_for_training = tok_shi\<rparr>, [FirstReview (ascii ''x=1'')])
   \<and> snd (process_row (\<lambda>_. None) (\<lambda>_ _. Content (Some (ascii '' '' @ tok_cuo @ [NL]))) []
      (init_row (Some (ascii ''x=1'')) (Some (ascii ''x=2'')) None))
     = [FirstReview (ascii ''x=1''), GenerateFix (ascii ''x=1''),
        SecondReview (tok_cuo) (ascii ''x=2'') (ascii ''x=1'') None]"
proof -
  have s1: "strip (tok_dui @ [12290]) = tok_dui @ [12290]"
    by (simp add: strip_def is_space_def tok_dui_def)
  have s2: "strip (ascii '' '' @ tok_cuo @ [NL]) = tok_cuo"
    by (simp add: strip_def is_space_def tok_cuo_def ascii_def NL_def)
  have n1: "tok_dui @ [12290] \<noteq> tok_cuo"
    by (simp add: tok_dui_def tok_cuo_def)
  show ?thesis
    using first_pass_token_routing
      [of "init_row (Some (ascii ''x=1'')) (Some (ascii ''x=2'')) None" "ascii ''x=1''" "ascii ''x=2''"
          "\<lambda>_ _. Content (Some (tok_dui @ [12290]))" "[]" "tok_dui @ [12290]" "\<lambda>_. None"]
      first_pass_token_routing
      [of "init_row (Some (ascii ''x=1'')) (Some (ascii ''x=2'')) None" "ascii ''x=1''" "ascii ''x=2''"
          "\<lambda>_ _. Content (Some (ascii '' '' @ tok_cuo @ [NL]))" "[]" "ascii '' '' @ tok_cuo @ [NL]" "\<lambda>_. None"]
      s1 s2 n1
    by (simp add: init_row_def generate_fixed_code_def content_strip_def)
qed


text \<open>
  Claim C5.  \<^verbatim>\<open>second_review\<close> returns \<open>(0, U+5426)\<close> whenever anything in its
  \<^verbatim>\<open>try\<close> raises, in particular on an oracle failure and on a first line that
  \<^verbatim>\<open>int\<close> rejects; otherwise the score is \<^verbatim>\<open>int\<close> of line one of the stripped reply
  and the verdict is line two, or U+5426 when there is no second line.  The reply
  \<^verbatim>\<open>"85\n"\<close> followed by U+662F parses to \<open>(85, U+662F)\<close> and \<^verbatim>\<open>"abc"\<close> to
  \<open>(0, U+5426)\<close>.  The function is total: it returns a pair for every reply.
\<close>

theorem second_review_parse:
  "(second_review_try dec (chat log (SecondReview ai g b a)) = Inl e \<longrightarrow>
      fst (second_review dec chat log ai g b a) = (0, tok_fou))
   \<and> (chat log (SecondReview ai g b a) = Raises \<or> chat log (SecondReview ai g b a) = Content None \<longrightarrow>
      fst (second_review dec chat log ai g b a) = (0, tok_fou))
   \<and> (chat log (SecondReview ai g b a) = Content (Some s) \<and> strip s = l1 \<and> NL \<notin> set l1 \<longrightarrow>
      fst (second_review dec chat log ai g b a) =
        (case py_int dec l1 of Inl x \<Rightarrow> (0, tok_fou) | Inr score \<Rightarrow> (score, tok_fou)))
   \<and> (chat log (SecondReview ai g b a) = Content (Some s) \<and> strip s = l1 @ NL # rest
        \<and> NL \<notin> set l1 \<longrightarrow>
      fst (second_review dec chat log ai g b a) =
        (case py_int dec l1 of
           Inl x \<Rightarrow> (0, tok_fou)
         | Inr score \<Rightarrow> (score, takeWhile (\<lambda>c. c \<noteq> NL) rest)))
   \<and> fst (second_review dec (\<lambda>_ _. Content (Some (ascii ''85\<newline>'' @ tok_shi))) log ai g b a)
        = (85, tok_shi)
   \<and> fst (second_review dec (\<lambda>_ _. Content (Some (ascii ''abc''))) log ai g b a) = (0, tok_fou)"
proof -
  let ?req = "SecondReview ai g b a"
  have c1: "fst (second_review dec chat log ai g b a) = (0, tok_fou)"
    if "second_review_try dec (chat log ?req) = Inl e"
    using that by (simp add: second_review_def)
  have c2: "fst (second_review dec chat log ai g b a) = (0, tok_fou)"
    if "chat log ?req = Raises \<or> chat log ?req = Content None"
    using that by (auto simp: second_review_def second_review_try_def content_strip_def)
  have c3: "fst (second_review dec chat log ai g b a) =
        (case py_int dec l1 of Inl x \<Rightarrow> (0, tok_fou) | Inr score \<Rightarrow> (score, tok_fou))"
    if "chat log ?req = Content (Some s) \<and> strip s = l1 \<and> NL \<notin> set l1"
  proof -
    from that have "split_on NL (strip s) = [l1]" by (simp add: split_on_no_sep)
    with that show ?thesis
      by (simp add: second_review_def second_review_try_def content_strip_def split: sum.splits)
  qed
  have c4: "fst (second_review dec chat log ai g b a) =
        (case py_int dec l1 of
           Inl x \<Rightarrow> (0, tok_fou)
         | Inr score \<Rightarrow> (score, takeWhile (\<lambda>c. c \<noteq> NL) rest))"
    if "chat log ?req = Content (Some s) \<and> strip s = l1 @ NL # rest \<and> NL \<notin> set l1"
  proof -
    from that have sp: "split_on NL (strip s) = l1 # split_on NL rest"
      by (simp add: split_on_first_line)
    obtain l2 ls where r: "split_on NL rest = l2 # ls"
      using split_on_not_Nil [of NL rest] by (cases "split_on NL rest") auto
    have "l2 = takeWhile (\<lambda>c. c \<noteq> NL) rest"
      using split_on_hd [of NL rest] r by simp
    with that sp r show ?thesis
      by (simp add: second_review_def second_review_try_def content_strip_def split: sum.splits)
  qed
  have c5: "fst (second_review dec (\<lambda>_ _. Content (Some (ascii ''85\<newline>'' @ tok_shi))) log ai g b a)
        = (85, tok_shi)"
    by (simp add: second_review_def second_review_try_def content_strip_def strip_def is_space_def
        tok_shi_def ascii_def NL_def py_int_def int_space_def parse_digits_def digit_of_def)
  have c6: "fst (second_review dec (\<lambda>_ _. Content (Some (ascii ''abc''))) log ai g b a) = (0, tok_fou)"
    by (simp add: second_review_def second_review_try_def content_strip_def strip_def is_space_def
        ascii_def NL_def py_int_def int_space_def parse_digits_def digit_of_def)
  from c1 c2 c3 c4 c5 c6 show ?thesis by blast
qed

theorem second_review_parse_witness:
  "fst (second_review (\<lambda>_. None) (\<lambda>_ _. Raises) [] (ascii ''x=3'') (ascii ''x=2'') (ascii ''x=1'') None)
      = (0, tok_fou)
   \<and> fst (second_review (\<lambda>_. None) (\<lambda>_ _. Content (Some (ascii ''70''))) []
          (ascii ''x=3'') (ascii ''x=2'') (ascii ''x=1'') None) = (70, tok_fou)
   \<and> fst (second_review (\<lambda>_. None) (\<lambda>_ _. Content (Some (ascii ''seventy''))) []
          (ascii ''x=3'') (ascii ''x=2'') (ascii ''x=1'') None) = (0, tok_fou)
   \<and> fst (second_review (\<lambda>_. None) (\<lambda>_ _. Content (Some (ascii '' 90 \<newline>'' @ tok_shi @ ascii ''\<newline>ok\<newline>''))) []
          (ascii ''x=3'') (ascii ''x=2'') (ascii ''x=1'') None) = (90, tok_shi)"
proof -
  have p1: "py_int (\<lambda>_. None) (ascii ''70'') = Inr 70"
    by (simp add: py_int_def int_space_def is_space_def parse_digits_def digit_of_def ascii_def)
  have p2: "py_int (\<lambda>_. None) (ascii ''seventy'') = Inl ValueError"
    by (simp add: py_int_def int_space_def is_space_def parse_digits_def digit_of_def ascii_def)
  have p3: "py_int (\<lambda>_. None) (ascii ''90 '') = Inr 90"
    by (simp add: py_int_def int_space_def is_space_def parse_digits_def digit_of_def ascii_def)
  have s1: "strip (ascii ''70'') = ascii ''70'' \<and> NL \<notin> set (ascii ''70'')"
    by (simp add: strip_def is_space_def ascii_def NL_def)
  have s2: "strip (ascii ''seventy'') = ascii ''seventy'' \<and> NL \<notin> set (ascii ''seventy'')"
    by (simp add: strip_def is_space_def ascii_def NL_def)
  have s3: "strip (ascii '' 90 \<newline>'' @ tok_shi @ ascii ''\<newline>ok\<newline>'')
              = ascii ''90 '' @ NL # (tok_shi @ ascii ''\<newline>ok'')
            \<and> NL \<notin> set (ascii ''90 '')
            \<and> takeWhile (\<lambda>c. c \<noteq> NL) (tok_shi @ ascii ''\<newline>ok'') = tok_shi"
    by (simp add: strip_def is_space_def ascii_def NL_def tok_shi_def)
  show ?thesis
    using second_review_parse
      [of "\<lambda>_. None" "\<lambda>_ _. Raises" "[]" "ascii ''x=3''" "ascii ''x=2''" "ascii ''x=1''" None
          OracleError "[]" "[]" "[]"]
      second_review_parse
      [of "\<lambda>_. None" "\<lambda>_ _. Content (Some (ascii ''70''))" "[]" "ascii ''x=3''" "ascii ''x=2''"
          "ascii ''x=1''" None OracleError "ascii ''70''" "ascii ''70''" "[]"]
      second_review_parse
      [of "\<lambda>_. None" "\<lambda>_ _. Content (Some (ascii ''seventy''))" "[]" "ascii ''x=3''" "ascii ''x=2''"
          "ascii ''x=1''" None OracleError "ascii ''seventy''" "ascii ''seventy''" "[]"]
      second_review_parse
      [of "\<lambda>_. None" "\<lambda>_ _. Content (Some (ascii '' 90 \<newline>'' @ tok_shi @ ascii ''\<newline>ok\<newline>''))"
          "[]" "ascii ''x=3''" "ascii ''x=2''" "ascii ''x=1''" None OracleError
          "ascii '' 90 \<newline>'' @ tok_shi @ ascii ''\<newline>ok\<newline>''" "ascii ''90 ''"
          "tok_shi @ ascii ''\<newline>ok''"]
      p1 p2 p3 s1 s2 s3
    by simp
qed

end
